theory Spec2Isabelle
  imports Complex_Main "HOL-Library.Option_ord"
begin

section \<open>Video game sales analysis: the data model\<close>

text \<open>
  The module \<^verbatim>\<open>video_game_analysis.py\<close> is a composition of dataframe operations.
  A dataframe is modelled as the list of its rows, a nullable column value as an
  \<open>option\<close> (\<open>None\<close> is SQL's null).

  Sales figures are \<open>DoubleType\<close>. Their type is left open (\<open>'v\<close>), and what the engine
  computes on them is a parameter of the model, so that nothing below assumes more of
  double arithmetic than is written here:
  \<^item> the order in which \<^verbatim>\<open>orderBy\<close> compares doubles is the linear order of \<open>'v\<close>
    (Spark orders doubles totally, NaN last);
  \<^item> \<open>sum_doubles\<close> is the sum that \<^verbatim>\<open>f.sum\<close> computes from the non-null figures of a
    group, taken in the order of the rows;
  \<^item> \<open>round_double\<close> is \<^verbatim>\<open>f.round\<close> on a double.

  \<open>load_sales_data\<close> reads the file and selects the four columns
  \<open>publisher\<close>, \<open>release_date\<close>, \<open>na_sales\<close>, \<open>total_sales\<close>; reading and parsing is
  the engine's work, so the analysis is modelled from the table \<open>salesDF\<close> that the loader
  hands over.
\<close>

record 'v arithmetic =
  sum_doubles :: "'v list \<Rightarrow> 'v"
  round_double :: "'v \<Rightarrow> nat \<Rightarrow> 'v"

datatype date = Date (date_year: int) (date_month: nat) (date_day: nat)

record 'v sales_row =
  publisher :: "string option"
  release_date :: "date option"
  na_sales :: "'v option"
  total_sales :: "'v option"

text \<open>\<^verbatim>\<open>withColumn("year", ...)\<close> extends every row by one column.\<close>

record 'v sales_row_year = "'v sales_row" +
  year :: "int option"

text \<open>One row of \<^verbatim>\<open>bestNAPublisherSales\<close>: the grouping key and the two aggregates.\<close>

record 'v yearly_sales_row =
  year_key :: "int option"
  na_total :: "'v option"
  global_total :: "'v option"

text \<open>
  The only exception the function itself can raise: \<^verbatim>\<open>first()\<close> returns Python's
  \<open>None\<close> on an empty dataframe, and subscripting \<open>None\<close> raises \<open>TypeError\<close>.
\<close>

datatype error = TypeError

text \<open>What the function writes to standard output, one entry per \<^verbatim>\<open>print\<close>/\<^verbatim>\<open>show\<close>.\<close>

datatype 'v stdout_line =
    Print_best_publisher "string option"
  | Print_missing_count nat
  | Print_sales_header
  | Show_table "'v yearly_sales_row list"

section \<open>Column expressions with SQL's three-valued logic\<close>

definition f_year :: "date option \<Rightarrow> int option" where
  "f_year d = map_option date_year d"

definition col_ge :: "int option \<Rightarrow> int \<Rightarrow> bool option" where
  "col_ge c n = map_option (\<lambda>v. n \<le> v) c"

definition col_le :: "int option \<Rightarrow> int \<Rightarrow> bool option" where
  "col_le c n = map_option (\<lambda>v. v \<le> n) c"

fun col_and :: "bool option \<Rightarrow> bool option \<Rightarrow> bool option" where
  "col_and (Some False) _ = Some False"
| "col_and _ (Some False) = Some False"
| "col_and (Some True) (Some True) = Some True"
| "col_and _ _ = None"

text \<open>\<^verbatim>\<open>col == value\<close>: null as soon as one side is null (also for a Python \<open>None\<close>).\<close>

fun col_eq :: "'a option \<Rightarrow> 'a option \<Rightarrow> bool option" where
  "col_eq (Some a) (Some b) = Some (a = b)"
| "col_eq _ _ = None"

definition isNull :: "'a option \<Rightarrow> bool option" where
  "isNull c = Some (c = None)"

text \<open>\<^verbatim>\<open>filter\<close> keeps the rows on which the condition is true (neither false nor null).\<close>

definition df_filter :: "('r \<Rightarrow> bool option) \<Rightarrow> 'r list \<Rightarrow> 'r list" where
  "df_filter cond rows = filter (\<lambda>r. cond r = Some True) rows"

section \<open>Aggregation\<close>

text \<open>
  \<^verbatim>\<open>f.sum\<close> skips nulls; it is null when the group has no non-null value, and the
  engine's sum of the non-null values otherwise.
\<close>

definition non_null :: "'a option list \<Rightarrow> 'a list" where
  "non_null vs = concat (map (\<lambda>v. case v of None \<Rightarrow> [] | Some x \<Rightarrow> [x]) vs)"

definition f_sum :: "'v arithmetic \<Rightarrow> 'v option list \<Rightarrow> 'v option" where
  "f_sum ar vs = (if non_null vs = [] then None else Some (sum_doubles ar (non_null vs)))"

text \<open>\<^verbatim>\<open>f.round(c, d)\<close>: the engine's rounding of a double to \<open>d\<close> decimals; null stays null.\<close>

definition f_round :: "'v arithmetic \<Rightarrow> 'v option \<Rightarrow> nat \<Rightarrow> 'v option" where
  "f_round ar c d = map_option (\<lambda>x. round_double ar x d) c"

text \<open>
  \<^verbatim>\<open>groupBy(key)\<close>: one group per distinct key value, null being a key like any other.
  The engine fixes no order of the groups; the model lists them by the last occurrence
  of their key, and nothing below depends on that order.
\<close>

definition groupBy :: "('r \<Rightarrow> 'k) \<Rightarrow> 'r list \<Rightarrow> ('k \<times> 'r list) list" where
  "groupBy key rows = map (\<lambda>k. (k, filter (\<lambda>r. key r = k) rows)) (remdups (map key rows))"

text \<open>
  \<^verbatim>\<open>orderBy(col.desc()).limit(1)\<close>: descending order puts nulls last, which is the
  order of \<open>option\<close> with \<open>None\<close> least, read backwards. The engine does not say which of
  several rows with the same sort key comes first, so the model returns every row that
  a descending sort may place first: the rows whose key no other row exceeds.
\<close>

definition orderBy_desc_limit_1 :: "('k \<times> 'v::linorder option) list \<Rightarrow> ('k \<times> 'v option) list" where
  "orderBy_desc_limit_1 groups = filter (\<lambda>g. list_all (\<lambda>h. snd h \<le> snd g) groups) groups"

section \<open>The analysis\<close>

definition with_year :: "'v sales_row \<Rightarrow> 'v sales_row_year" where
  "with_year r = sales_row.extend r (sales_row_year.fields (f_year (release_date r)))"

definition sales0615DF :: "'v sales_row list \<Rightarrow> 'v sales_row_year list" where
  "sales0615DF salesDF =
     df_filter (\<lambda>r. col_and (col_ge (year r) 2006) (col_le (year r) 2015)) (map with_year salesDF)"

definition bestPublisherDF ::
  "'v::linorder arithmetic \<Rightarrow> 'v sales_row_year list \<Rightarrow> (string option \<times> 'v option) list" where
  "bestPublisherDF ar rows =
     orderBy_desc_limit_1 (map (\<lambda>(k, g). (k, f_sum ar (map na_sales g))) (groupBy publisher rows))"

definition bestNADF :: "'v sales_row_year list \<Rightarrow> string option \<Rightarrow> 'v sales_row_year list" where
  "bestNADF rows bestNAPublisher = df_filter (\<lambda>r. col_eq (publisher r) bestNAPublisher) rows"

definition titlesWithMissingSalesData :: "'v sales_row_year list \<Rightarrow> nat" where
  "titlesWithMissingSalesData best = length (df_filter (\<lambda>r. isNull (na_sales r)) best)"

definition bestNAPublisherSales ::
  "'v arithmetic \<Rightarrow> 'v sales_row_year list \<Rightarrow> 'v yearly_sales_row list" where
  "bestNAPublisherSales ar best =
     sort_key year_key
       (map (\<lambda>(k, g). \<lparr>year_key = k,
                       na_total = f_round ar (f_sum ar (map na_sales g)) 2,
                       global_total = f_round ar (f_sum ar (map total_sales g)) 2\<rparr>)
            (groupBy year best))"

type_synonym 'v result = "(string option \<times> 'v yearly_sales_row list) \<times> 'v stdout_line list"

text \<open>Everything after \<^verbatim>\<open>bestNAPublisher\<close> is known: the returned pair and the printed lines.\<close>

definition report :: "'v arithmetic \<Rightarrow> 'v sales_row_year list \<Rightarrow> string option \<Rightarrow> 'v result" where
  "report ar rows bestNAPublisher =
     (let best = bestNADF rows bestNAPublisher;
          missing = titlesWithMissingSalesData best;
          sales = bestNAPublisherSales ar best
      in ((bestNAPublisher, sales),
          [Print_best_publisher bestNAPublisher, Print_missing_count missing,
           Print_sales_header, Show_table sales]))"

text \<open>
  The outcomes of one call: the exception when \<^verbatim>\<open>first()\<close> finds no row, otherwise one
  result for each row that the engine may have placed first.
\<close>

definition analyze_publisher_sales ::
  "'v::linorder arithmetic \<Rightarrow> 'v sales_row list \<Rightarrow> (error + 'v result) list" where
  "analyze_publisher_sales ar salesDF =
     (let rows = sales0615DF salesDF
      in case bestPublisherDF ar rows of
           [] \<Rightarrow> [Inl TypeError]
         | firsts \<Rightarrow> map (\<lambda>row. Inr (report ar rows (fst row))) firsts)"

section \<open>The specification's vocabulary\<close>

text \<open>
  The definitions of this section follow the words of the specification, not the code:
  they are what the theorems below compare \<open>analyze_publisher_sales\<close> with.
\<close>

text \<open>The analysis window: a release date is present and its year is in 2006..2015.\<close>

definition in_window :: "'v sales_row \<Rightarrow> bool" where
  "in_window r = (case release_date r of None \<Rightarrow> False
                  | Some d \<Rightarrow> 2006 \<le> date_year d \<and> date_year d \<le> 2015)"

text \<open>
  A sum with nulls skipped: the figures that are present, in their order, summed by the
  engine; null when none is present. A rounded sum is that sum rounded to two decimals.
\<close>

definition known :: "'v option list \<Rightarrow> 'v list" where
  "known vs = map the (filter (\<lambda>v. v \<noteq> None) vs)"

definition sum_skipping_nulls :: "'v arithmetic \<Rightarrow> 'v option list \<Rightarrow> 'v option" where
  "sum_skipping_nulls ar vs =
     (if \<forall>v \<in> set vs. v = None then None else Some (sum_doubles ar (known vs)))"

definition rounded_sum :: "'v arithmetic \<Rightarrow> 'v option list \<Rightarrow> 'v option" where
  "rounded_sum ar vs =
     (case sum_skipping_nulls ar vs of None \<Rightarrow> None | Some s \<Rightarrow> Some (round_double ar s 2))"

text \<open>A publisher's total: the sum of \<open>na_sales\<close>, nulls skipped, over its rows in the window.\<close>

definition total_na_sales :: "'v arithmetic \<Rightarrow> 'v sales_row list \<Rightarrow> string option \<Rightarrow> 'v option" where
  "total_na_sales ar salesDF p =
     sum_skipping_nulls ar (map na_sales (filter (\<lambda>r. in_window r \<and> publisher r = p) salesDF))"

text \<open>
  A top publisher: it has a row in the window and no publisher's total exceeds its own.
  Totals are compared as the descending sort compares them: a null total (\<open>None\<close>)
  lies below every number.
\<close>

definition is_top_publisher :: "'v::linorder arithmetic \<Rightarrow> 'v sales_row list \<Rightarrow> string option \<Rightarrow> bool" where
  "is_top_publisher ar salesDF bp \<longleftrightarrow>
     (\<exists>r \<in> set salesDF. in_window r \<and> publisher r = bp) \<and>
     (\<forall>r \<in> set salesDF. in_window r \<longrightarrow>
        total_na_sales ar salesDF (publisher r) \<le> total_na_sales ar salesDF bp)"

text \<open>The subset S: the rows in the window whose publisher is the best one (none for null).\<close>

definition best_rows :: "'v sales_row list \<Rightarrow> string option \<Rightarrow> 'v sales_row list" where
  "best_rows salesDF bp =
     filter (\<lambda>r. in_window r \<and> (case bp of None \<Rightarrow> False | Some b \<Rightarrow> publisher r = Some b)) salesDF"

definition rows_of_year :: "'v sales_row list \<Rightarrow> int \<Rightarrow> 'v sales_row list" where
  "rows_of_year rows y = filter (\<lambda>r. map_option date_year (release_date r) = Some y) rows"

text \<open>The yearly aggregate of a year: the rounded sums of both figures over that year's rows.\<close>

definition yearly_aggregate :: "'v arithmetic \<Rightarrow> 'v sales_row list \<Rightarrow> int \<Rightarrow> 'v yearly_sales_row" where
  "yearly_aggregate ar rows y =
     \<lparr>year_key = Some y,
      na_total = rounded_sum ar (map na_sales (rows_of_year rows y)),
      global_total = rounded_sum ar (map total_sales (rows_of_year rows y))\<rparr>"

text \<open>The years that occur in a list of rows, ascending and without repetition.\<close>

definition years_of :: "'v sales_row list \<Rightarrow> int list" where
  "years_of rows = sort (remdups (known (map (\<lambda>r. map_option date_year (release_date r)) rows)))"

definition missing_count :: "'v sales_row list \<Rightarrow> nat" where
  "missing_count rows = length (filter (\<lambda>r. na_sales r = None) rows)"

definition expected_report :: "'v arithmetic \<Rightarrow> 'v sales_row list \<Rightarrow> string option \<Rightarrow> 'v result" where
  "expected_report ar salesDF bp =
     (let S = best_rows salesDF bp;
          sales = map (yearly_aggregate ar S) (years_of S)
      in ((bp, sales),
          [Print_best_publisher bp, Print_missing_count (missing_count S),
           Print_sales_header, Show_table sales]))"

section \<open>An arithmetic and tables for the examples\<close>

text \<open>
  The examples read the figures as decimal numbers, sum them exactly and round half away
  from zero. On the figures of the tables below IEEE doubles give the same sums and
  print the same roundings; in general they do not, which is why every theorem is
  stated for an arbitrary arithmetic and the one below only instantiates it.
\<close>

definition round_half_up :: "rat \<Rightarrow> nat \<Rightarrow> rat" where
  "round_half_up x d =
     (if 0 \<le> x then of_int \<lfloor>x * 10 ^ d + 1 / 2\<rfloor> / 10 ^ d
      else - (of_int \<lfloor>- x * 10 ^ d + 1 / 2\<rfloor> / 10 ^ d))"

definition decimal_arithmetic :: "rat arithmetic" where
  "decimal_arithmetic = \<lparr>sum_doubles = sum_list, round_double = round_half_up\<rparr>"

text \<open>The sum of a column when a null counts as 0.\<close>

definition sum_nulls_as_0 :: "rat option list \<Rightarrow> rat" where
  "sum_nulls_as_0 vs = sum_list (map (\<lambda>v. case v of None \<Rightarrow> 0 | Some x \<Rightarrow> x) vs)"

text \<open>
  Publishers A (10 and 20 in 2007 and 2008) and B (5 in 2009) in the window, and C with
  100 in 2020.
\<close>

definition scenario_abc :: "rat sales_row list" where
  "scenario_abc =
     [\<lparr>publisher = Some ''A'', release_date = Some (Date 2007 3 1),
       na_sales = Some 10, total_sales = Some 25\<rparr>,
      \<lparr>publisher = Some ''A'', release_date = Some (Date 2008 6 15),
       na_sales = Some 20, total_sales = Some 40\<rparr>,
      \<lparr>publisher = Some ''B'', release_date = Some (Date 2009 9 9),
       na_sales = Some 5, total_sales = Some 9\<rparr>,
      \<lparr>publisher = Some ''C'', release_date = Some (Date 2020 1 1),
       na_sales = Some 100, total_sales = Some 150\<rparr>]"

definition sales_abc :: "rat yearly_sales_row list" where
  "sales_abc =
     [\<lparr>year_key = Some 2007, na_total = Some 10, global_total = Some 25\<rparr>,
      \<lparr>year_key = Some 2008, na_total = Some 20, global_total = Some 40\<rparr>]"

text \<open>No row in the window: one release in 2020 and one in 2005.\<close>

definition scenario_out_of_window :: "rat sales_row list" where
  "scenario_out_of_window =
     [\<lparr>publisher = Some ''C'', release_date = Some (Date 2020 1 1),
       na_sales = Some 100, total_sales = Some 150\<rparr>,
      \<lparr>publisher = Some ''D'', release_date = Some (Date 2005 12 31),
       na_sales = Some 3, total_sales = Some 4\<rparr>]"

text \<open>A single row without a release date.\<close>

definition scenario_no_date :: "rat sales_row list" where
  "scenario_no_date =
     [\<lparr>publisher = Some ''A'', release_date = None, na_sales = Some 1, total_sales = Some 2\<rparr>]"



text \<open>
  Publisher A with a null North American figure in 2010 and the figure 7 in 2011.
\<close>

definition scenario_missing :: "rat sales_row list" where
  "scenario_missing =
     [\<lparr>publisher = Some ''A'', release_date = Some (Date 2010 5 5),
       na_sales = None, total_sales = Some 15\<rparr>,
      \<lparr>publisher = Some ''A'', release_date = Some (Date 2011 7 7),
       na_sales = Some 7, total_sales = Some 8\<rparr>]"

definition sales_missing :: "rat yearly_sales_row list" where
  "sales_missing =
     [\<lparr>year_key = Some 2010, na_total = None, global_total = Some 15\<rparr>,
      \<lparr>year_key = Some 2011, na_total = Some 7, global_total = Some 8\<rparr>]"

text \<open>
  The rows without a publisher have the highest total; one of them lacks its North
  American figure.
\<close>

definition scenario_null_publisher :: "rat sales_row list" where
  "scenario_null_publisher =
     [\<lparr>publisher = None, release_date = Some (Date 2010 5 5),
       na_sales = Some 50, total_sales = Some 60\<rparr>,
      \<lparr>publisher = None, release_date = Some (Date 2011 7 7),
       na_sales = None, total_sales = Some 5\<rparr>,
      \<lparr>publisher = Some ''B'', release_date = Some (Date 2012 2 2),
       na_sales = Some 1, total_sales = Some 2\<rparr>]"





text \<open>Publisher A with 0.004 in each of two years.\<close>

definition scenario_rounding :: "rat sales_row list" where
  "scenario_rounding =
     [\<lparr>publisher = Some ''A'', release_date = Some (Date 2007 3 1),
       na_sales = Some (4 / 1000), total_sales = Some 1\<rparr>,
      \<lparr>publisher = Some ''A'', release_date = Some (Date 2008 6 15),
       na_sales = Some (4 / 1000), total_sales = Some 1\<rparr>]"

definition sales_rounding :: "rat yearly_sales_row list" where
  "sales_rounding =
     [\<lparr>year_key = Some 2007, na_total = Some 0, global_total = Some 1\<rparr>,
      \<lparr>year_key = Some 2008, na_total = Some 0, global_total = Some 1\<rparr>]"

text \<open>Publisher A with a negative figure, publisher B with no known figure.\<close>

definition scenario_negative :: "rat sales_row list" where
  "scenario_negative =
     [\<lparr>publisher = Some ''A'', release_date = Some (Date 2010 5 5),
       na_sales = Some (- 1), total_sales = Some 2\<rparr>,
      \<lparr>publisher = Some ''B'', release_date = Some (Date 2010 7 7),
       na_sales = None, total_sales = Some 3\<rparr>]"

definition sales_negative :: "rat yearly_sales_row list" where
  "sales_negative =
     [\<lparr>year_key = Some 2010, na_total = Some (- 1), global_total = Some 2\<rparr>]"

text \<open>
  Publisher A with two rows in 2009 and two in 2007, listed with the later year first
  and with fractional figures: 1.25 + 2.5 and 0.625 + 0.25 in 2009, 0.125 + 0.25 and
  0.5 + 0.375 in 2007. Publisher B has one smaller row in 2008.
\<close>

definition scenario_fractions :: "rat sales_row list" where
  "scenario_fractions =
     [\<lparr>publisher = Some ''A'', release_date = Some (Date 2009 11 20),
       na_sales = Some (125 / 100), total_sales = Some (625 / 1000)\<rparr>,
      \<lparr>publisher = Some ''A'', release_date = Some (Date 2007 3 1),
       na_sales = Some (125 / 1000), total_sales = Some (5 / 10)\<rparr>,
      \<lparr>publisher = Some ''B'', release_date = Some (Date 2008 6 15),
       na_sales = Some (5 / 10), total_sales = Some 1\<rparr>,
      \<lparr>publisher = Some ''A'', release_date = Some (Date 2009 2 2),
       na_sales = Some (25 / 10), total_sales = Some (25 / 100)\<rparr>,
      \<lparr>publisher = Some ''A'', release_date = Some (Date 2007 8 8),
       na_sales = Some (25 / 100), total_sales = Some (375 / 1000)\<rparr>]"

definition sales_fractions :: "rat yearly_sales_row list" where
  "sales_fractions =
     [\<lparr>year_key = Some 2007, na_total = Some (38 / 100), global_total = Some (88 / 100)\<rparr>,
      \<lparr>year_key = Some 2009, na_total = Some (375 / 100), global_total = Some (88 / 100)\<rparr>]"

text \<open>Publisher A with two rows in the single year 2010: 0.125 and 0.25.\<close>

definition scenario_single_year :: "rat sales_row list" where
  "scenario_single_year =
     [\<lparr>publisher = Some ''A'', release_date = Some (Date 2010 5 5),
       na_sales = Some (125 / 1000), total_sales = Some 1\<rparr>,
      \<lparr>publisher = Some ''A'', release_date = Some (Date 2010 7 7),
       na_sales = Some (25 / 100), total_sales = Some 2\<rparr>]"

definition sales_single_year :: "rat yearly_sales_row list" where
  "sales_single_year =
     [\<lparr>year_key = Some 2010, na_total = Some (38 / 100), global_total = Some 3\<rparr>]"

section \<open>The code against the vocabulary\<close>

lemma with_year_simps [simp]:
  "publisher (with_year r) = publisher r"
  "release_date (with_year r) = release_date r"
  "na_sales (with_year r) = na_sales r"
  "total_sales (with_year r) = total_sales r"
  "year (with_year r) = f_year (release_date r)"
  by (simp_all add: with_year_def sales_row.defs sales_row_year.defs)

lemma col_and_Some: "col_and (Some a) (Some b) = Some (a \<and> b)"
  by (cases a; cases b) simp_all

lemma window_cond:
  "(col_and (col_ge (f_year (release_date r)) 2006) (col_le (f_year (release_date r)) 2015) = Some True)
     = in_window r"
  by (cases "release_date r") (simp_all add: in_window_def f_year_def col_ge_def col_le_def col_and_Some)

lemma sales0615DF_window: "sales0615DF salesDF = map with_year (filter in_window salesDF)"
  unfolding sales0615DF_def df_filter_def
  by (induction salesDF) (simp_all add: window_cond)

lemma sales0615DF_Nil_iff: "sales0615DF salesDF = [] \<longleftrightarrow> (\<forall>r \<in> set salesDF. \<not> in_window r)"
  by (simp add: sales0615DF_window filter_empty_conv)

lemma non_null_simps [simp]:
  "non_null [] = []"
  "non_null (None # vs) = non_null vs"
  "non_null (Some x # vs) = x # non_null vs"
  by (simp_all add: non_null_def)

lemma known_simps [simp]:
  "known [] = []"
  "known (None # vs) = known vs"
  "known (Some x # vs) = x # known vs"
  by (simp_all add: known_def)

lemma non_null_known: "non_null vs = known vs"
proof (induction vs)
  case Nil
  then show ?case by simp
next
  case (Cons v vs)
  then show ?case by (cases v) simp_all
qed

lemma set_known: "set (known vs) = {x. Some x \<in> set vs}"
proof (induction vs)
  case Nil
  then show ?case by simp
next
  case (Cons v vs)
  then show ?case by (cases v) auto
qed

lemma known_Nil_iff: "known vs = [] \<longleftrightarrow> (\<forall>v \<in> set vs. v = None)"
proof -
  have "known vs = [] \<longleftrightarrow> set (known vs) = {}"
    by simp
  also have "\<dots> \<longleftrightarrow> (\<forall>v \<in> set vs. v = None)"
    unfolding set_known by (metis (mono_tags, lifting) Collect_empty_eq not_Some_eq)
  finally show ?thesis .
qed

lemma f_sum_spec: "f_sum ar vs = sum_skipping_nulls ar vs"
  by (simp add: f_sum_def sum_skipping_nulls_def non_null_known known_Nil_iff)

lemma f_round_f_sum_spec: "f_round ar (f_sum ar vs) 2 = rounded_sum ar vs"
  by (simp add: f_round_def f_sum_spec rounded_sum_def split: option.split)

lemma set_groupBy:
  "set (groupBy key rows) = (\<lambda>k. (k, filter (\<lambda>r. key r = k) rows)) ` key ` set rows"
  by (simp add: groupBy_def)

lemma groupBy_Nil_iff: "groupBy key rows = [] \<longleftrightarrow> rows = []"
  by (simp add: groupBy_def)

lemma orderBy_desc_limit_1_nonempty:
  assumes "groups \<noteq> []"
  shows "orderBy_desc_limit_1 groups \<noteq> []"
proof -
  let ?K = "snd ` set groups"
  have fin: "finite ?K" and ne: "?K \<noteq> {}" using assms by simp_all
  from Max_in [OF fin ne] obtain g where g: "g \<in> set groups" "snd g = Max ?K" by auto
  have "\<forall>h \<in> set groups. snd h \<le> snd g"
    using g Max_ge [OF fin] by auto
  then have "g \<in> set (orderBy_desc_limit_1 groups)"
    using g by (simp add: orderBy_desc_limit_1_def list_all_iff)
  then show ?thesis by auto
qed

lemma set_orderBy_desc_limit_1:
  "g \<in> set (orderBy_desc_limit_1 groups) \<longleftrightarrow> g \<in> set groups \<and> (\<forall>h \<in> set groups. snd h \<le> snd g)"
  by (auto simp: orderBy_desc_limit_1_def list_all_iff)

lemma bestPublisherDF_Nil_iff: "bestPublisherDF ar rows = [] \<longleftrightarrow> rows = []"
proof
  assume "bestPublisherDF ar rows = []"
  then show "rows = []"
    using orderBy_desc_limit_1_nonempty
      [of "map (\<lambda>(k, g). (k, f_sum ar (map na_sales g))) (groupBy publisher rows)"]
    by (auto simp: bestPublisherDF_def groupBy_Nil_iff)
next
  assume "rows = []"
  then show "bestPublisherDF ar rows = []"
    by (simp add: bestPublisherDF_def groupBy_def orderBy_desc_limit_1_def)
qed

lemma filter_map_with_year:
  "map na_sales (filter (\<lambda>r. publisher r = p) (map with_year rows)) =
   map na_sales (filter (\<lambda>r. publisher r = p) rows)"
  by (induction rows) simp_all

lemma group_total:
  "f_sum ar (map na_sales (filter (\<lambda>r. publisher r = p) (sales0615DF salesDF))) =
   total_na_sales ar salesDF p"
  by (simp add: sales0615DF_window total_na_sales_def f_sum_spec filter_map_with_year
      filter_filter conj_commute)

lemma set_bestPublisherDF:
  "(p, s) \<in> set (bestPublisherDF ar (sales0615DF salesDF)) \<longleftrightarrow>
     (\<exists>r \<in> set salesDF. in_window r \<and> publisher r = p) \<and> s = total_na_sales ar salesDF p \<and>
     (\<forall>r \<in> set salesDF. in_window r \<longrightarrow>
        total_na_sales ar salesDF (publisher r) \<le> total_na_sales ar salesDF p)"
proof -
  let ?rows = "sales0615DF salesDF"
  let ?groups = "map (\<lambda>(k, g). (k, f_sum ar (map na_sales g))) (groupBy publisher ?rows)"
  have keys: "publisher ` set ?rows = publisher ` {r \<in> set salesDF. in_window r}"
    by (auto simp: sales0615DF_window image_iff)
  have groups: "set ?groups =
      (\<lambda>k. (k, total_na_sales ar salesDF k)) ` publisher ` {r \<in> set salesDF. in_window r}"
    by (simp add: set_groupBy image_image group_total keys)
  show ?thesis
    unfolding bestPublisherDF_def set_orderBy_desc_limit_1 groups
    by auto
qed

lemma col_eq_True: "(col_eq c bp = Some True) = (case bp of None \<Rightarrow> False | Some b \<Rightarrow> c = Some b)"
  by (cases c; cases bp) auto

lemma bestNADF_best_rows:
  "bestNADF (sales0615DF salesDF) bp = map with_year (best_rows salesDF bp)"
  by (cases bp)
     (simp_all add: bestNADF_def df_filter_def sales0615DF_window best_rows_def filter_map
        comp_def col_eq_True)

lemma titlesWithMissingSalesData_count:
  "titlesWithMissingSalesData (map with_year rows) = missing_count rows"
  by (simp add: titlesWithMissingSalesData_def missing_count_def df_filter_def isNull_def
      filter_map comp_def)

lemma insort_key_map:
  assumes "\<And>k. k \<in> set js \<Longrightarrow> (f (h j) \<le> f (h k)) = (g j \<le> g k)"
  shows "insort_key f (h j) (map h js) = map h (insort_key g j js)"
  using assms by (induction js) simp_all

lemma sort_key_map:
  assumes "\<And>j k. j \<in> set ks \<Longrightarrow> k \<in> set ks \<Longrightarrow> (f (h j) \<le> f (h k)) = (g j \<le> g k)"
  shows "sort_key f (map h ks) = map h (sort_key g ks)"
  using assms
proof (induction ks)
  case Nil
  then show ?case by simp
next
  case (Cons k ks)
  have "sort_key f (map h ks) = map h (sort_key g ks)"
    using Cons by simp
  moreover have "insort_key f (h k) (map h (sort_key g ks)) = map h (insort_key g k (sort_key g ks))"
    by (rule insort_key_map) (simp add: Cons.prems)
  ultimately show ?case by simp
qed

lemma remdups_map_Some: "remdups (map Some ks) = map Some (remdups ks)"
  by (induction ks) auto

lemma in_window_year: "in_window r \<Longrightarrow> \<exists>y. f_year (release_date r) = Some y"
  by (cases "release_date r") (simp_all add: in_window_def f_year_def)

lemma window_years:
  assumes "\<And>r. r \<in> set rows \<Longrightarrow> in_window r"
  shows "map (\<lambda>r. f_year (release_date r)) rows =
         map Some (known (map (\<lambda>r. f_year (release_date r)) rows))"
  using assms
proof (induction rows)
  case Nil
  then show ?case by simp
next
  case (Cons r rows)
  obtain y where "f_year (release_date r) = Some y"
    using in_window_year Cons.prems by auto
  then show ?case using Cons by simp
qed

lemma yearly_rows:
  "map f (filter (\<lambda>r. year r = Some y) (map with_year rows)) =
   map (\<lambda>r. f (with_year r)) (rows_of_year rows y)"
  by (simp add: rows_of_year_def filter_map comp_def f_year_def)

lemma bestNAPublisherSales_yearly:
  assumes "\<And>r. r \<in> set rows \<Longrightarrow> in_window r"
  shows "bestNAPublisherSales ar (map with_year rows) = map (yearly_aggregate ar rows) (years_of rows)"
proof -
  let ?ys = "known (map (\<lambda>r. f_year (release_date r)) rows)"
  have keys: "map year (map with_year rows) = map Some ?ys"
    using window_years [OF assms] by (simp add: comp_def)
  have rem: "remdups (map Some ?ys) = map Some (remdups ?ys)"
    by (rule remdups_map_Some)
  have groups: "map (\<lambda>(k, g). \<lparr>year_key = k,
                       na_total = f_round ar (f_sum ar (map na_sales g)) 2,
                       global_total = f_round ar (f_sum ar (map total_sales g)) 2\<rparr>)
            (groupBy year (map with_year rows)) = map (yearly_aggregate ar rows) (remdups ?ys)"
    unfolding groupBy_def keys rem
    by (simp add: comp_def yearly_aggregate_def yearly_rows f_round_f_sum_spec)
  have "sort_key year_key (map (yearly_aggregate ar rows) (remdups ?ys)) =
        map (yearly_aggregate ar rows) (sort_key (\<lambda>y. y) (remdups ?ys))"
    by (rule sort_key_map) (simp add: yearly_aggregate_def)
  then show ?thesis
    by (simp add: bestNAPublisherSales_def groups years_of_def f_year_def)
qed

lemma best_rows_in_window: "r \<in> set (best_rows salesDF bp) \<Longrightarrow> in_window r"
  by (simp add: best_rows_def)

lemma report_expected: "report ar (sales0615DF salesDF) bp = expected_report ar salesDF bp"
  by (simp add: report_def expected_report_def Let_def bestNADF_best_rows
      titlesWithMissingSalesData_count bestNAPublisherSales_yearly best_rows_in_window)

lemma analyze_Inl_iff:
  "Inl e \<in> set (analyze_publisher_sales ar salesDF) \<longleftrightarrow> sales0615DF salesDF = []"
proof (cases "bestPublisherDF ar (sales0615DF salesDF)")
  case Nil
  then have "sales0615DF salesDF = []" by (simp add: bestPublisherDF_Nil_iff)
  with Nil show ?thesis
    by (cases e) (simp add: analyze_publisher_sales_def Let_def)
next
  case (Cons row firsts)
  then have "sales0615DF salesDF \<noteq> []"
    using bestPublisherDF_Nil_iff [of ar "sales0615DF salesDF"] by auto
  with Cons show ?thesis
    by (auto simp: analyze_publisher_sales_def Let_def)
qed

lemma top_publisher_row:
  "(\<exists>row \<in> set (bestPublisherDF ar (sales0615DF salesDF)). fst row = bp) \<longleftrightarrow>
   is_top_publisher ar salesDF bp"
proof
  assume "\<exists>row \<in> set (bestPublisherDF ar (sales0615DF salesDF)). fst row = bp"
  then obtain s where "(bp, s) \<in> set (bestPublisherDF ar (sales0615DF salesDF))"
    by (metis prod.collapse)
  then show "is_top_publisher ar salesDF bp"
    unfolding set_bestPublisherDF is_top_publisher_def by simp
next
  assume "is_top_publisher ar salesDF bp"
  then have "(bp, total_na_sales ar salesDF bp) \<in> set (bestPublisherDF ar (sales0615DF salesDF))"
    unfolding set_bestPublisherDF is_top_publisher_def by simp
  then show "\<exists>row \<in> set (bestPublisherDF ar (sales0615DF salesDF)). fst row = bp"
    by force
qed

lemma analyze_Inr_iff:
  "Inr res \<in> set (analyze_publisher_sales ar salesDF) \<longleftrightarrow>
     (\<exists>bp. is_top_publisher ar salesDF bp \<and> res = expected_report ar salesDF bp)"
proof -
  have "Inr res \<in> set (analyze_publisher_sales ar salesDF) \<longleftrightarrow>
        (\<exists>row \<in> set (bestPublisherDF ar (sales0615DF salesDF)).
           res = report ar (sales0615DF salesDF) (fst row))"
    by (cases "bestPublisherDF ar (sales0615DF salesDF)")
       (auto simp: analyze_publisher_sales_def Let_def)
  also have "\<dots> \<longleftrightarrow> (\<exists>bp. (\<exists>row \<in> set (bestPublisherDF ar (sales0615DF salesDF)). fst row = bp)
                 \<and> res = expected_report ar salesDF bp)"
    unfolding report_expected by blast
  finally show ?thesis
    unfolding top_publisher_row .
qed

lemma analyze_nonempty: "analyze_publisher_sales ar salesDF \<noteq> []"
  by (cases "bestPublisherDF ar (sales0615DF salesDF)")
     (simp_all add: analyze_publisher_sales_def Let_def)

lemma analyze_Inr_expected:
  assumes "Inr ((bp, sales), out) \<in> set (analyze_publisher_sales ar salesDF)"
  shows "sales = map (yearly_aggregate ar (best_rows salesDF bp)) (years_of (best_rows salesDF bp))"
    and "out = [Print_best_publisher bp, Print_missing_count (missing_count (best_rows salesDF bp)),
                Print_sales_header, Show_table sales]"
    and "is_top_publisher ar salesDF bp"
  using assms by (auto simp: analyze_Inr_iff expected_report_def Let_def)



lemma set_years_of: "set (years_of rows) = {y. rows_of_year rows y \<noteq> []}"
proof -
  have "y \<in> set (years_of rows) \<longleftrightarrow> rows_of_year rows y \<noteq> []" for y
  proof -
    have "y \<in> set (years_of rows) \<longleftrightarrow>
          (\<exists>r \<in> set rows. Some y = map_option date_year (release_date r))"
      by (simp add: years_of_def set_known image_iff)
    also have "\<dots> \<longleftrightarrow> (\<exists>r \<in> set rows. map_option date_year (release_date r) = Some y)"
      by (rule bex_cong [OF refl]) (rule eq_commute)
    also have "\<dots> \<longleftrightarrow> rows_of_year rows y \<noteq> []"
      unfolding rows_of_year_def filter_empty_conv by blast
    finally show ?thesis .
  qed
  then show ?thesis by blast
qed

lemma sorted_years_of: "sorted (years_of rows)" and distinct_years_of: "distinct (years_of rows)"
  by (simp_all add: years_of_def)

lemma f_sum_skips_null: "f_sum ar (filter (\<lambda>v. v \<noteq> None) vs) = f_sum ar vs"
proof -
  have "non_null (filter (\<lambda>v. v \<noteq> None) vs) = non_null vs"
  proof (induction vs)
    case Nil
    then show ?case by simp
  next
    case (Cons v vs)
    then show ?case by (cases v) simp_all
  qed
  then show ?thesis by (simp add: f_sum_def)
qed

lemma f_sum_known_rows:
  "f_sum ar (map na_sales (filter (\<lambda>r. na_sales r \<noteq> None) rows)) = f_sum ar (map na_sales rows)"
  using f_sum_skips_null [of ar "map na_sales rows"] by (simp add: filter_map comp_def)

lemma rounded_sum_all_null: "(\<And>v. v \<in> set vs \<Longrightarrow> v = None) \<Longrightarrow> rounded_sum ar vs = None"
  by (simp add: rounded_sum_def sum_skipping_nulls_def)



lemma analyze_scenario_abc:
  "analyze_publisher_sales decimal_arithmetic scenario_abc =
     [Inr ((Some ''A'', sales_abc),
           [Print_best_publisher (Some ''A''), Print_missing_count 0,
            Print_sales_header, Show_table sales_abc])]"
  by code_simp

lemma analyze_scenario_missing:
  "analyze_publisher_sales decimal_arithmetic scenario_missing =
     [Inr ((Some ''A'', sales_missing),
           [Print_best_publisher (Some ''A''), Print_missing_count 1,
            Print_sales_header, Show_table sales_missing])]"
  by code_simp

lemma analyze_scenario_null_publisher:
  "analyze_publisher_sales decimal_arithmetic scenario_null_publisher =
     [Inr ((None, []),
           [Print_best_publisher None, Print_missing_count 0,
            Print_sales_header, Show_table []])]"
  by code_simp



lemma analyze_scenario_rounding:
  "analyze_publisher_sales decimal_arithmetic scenario_rounding =
     [Inr ((Some ''A'', sales_rounding),
           [Print_best_publisher (Some ''A''), Print_missing_count 0,
            Print_sales_header, Show_table sales_rounding])]"
  by code_simp

lemma analyze_scenario_fractions:
  "analyze_publisher_sales decimal_arithmetic scenario_fractions =
     [Inr ((Some ''A'', sales_fractions),
           [Print_best_publisher (Some ''A''), Print_missing_count 0,
            Print_sales_header, Show_table sales_fractions])]"
  by code_simp

lemma analyze_scenario_single_year:
  "analyze_publisher_sales decimal_arithmetic scenario_single_year =
     [Inr ((Some ''A'', sales_single_year),
           [Print_best_publisher (Some ''A''), Print_missing_count 0,
            Print_sales_header, Show_table sales_single_year])]"
  by code_simp

section \<open>No row in the window\<close>

text \<open>
  Claim C1, as the code has it. When the year filter leaves no row, \<^verbatim>\<open>first()\<close> returns
  \<open>None\<close> and the subscript \<^verbatim>\<open>["publisher"]\<close> raises Python's \<open>TypeError\<close>: that
  exception is the only outcome of the call. The code defines no exception of its own
  and catches nothing, so there is no separate not-found signal.
\<close>

theorem empty_window_raises_TypeError:
  assumes "sales0615DF salesDF = []"
  shows "analyze_publisher_sales ar salesDF = [Inl TypeError]"
proof -
  have "bestPublisherDF ar (sales0615DF salesDF) = []"
    using assms by (simp add: bestPublisherDF_Nil_iff)
  then show ?thesis
    by (simp add: analyze_publisher_sales_def Let_def)
qed

theorem empty_window_raises_TypeError_witness:
  "sales0615DF scenario_out_of_window = [] \<and>
   analyze_publisher_sales decimal_arithmetic scenario_out_of_window = [Inl TypeError]"
proof -
  have h: "sales0615DF scenario_out_of_window = []"
    by code_simp
  from h empty_window_raises_TypeError [OF h] show ?thesis
    by simp
qed

text \<open>
  Claim C1, as the specification words it, fails on the empty table: the outcome is the
  \<open>TypeError\<close> of the subscript on the missing top row.
\<close>

theorem empty_table_crashes_on_missing_row:
  "analyze_publisher_sales decimal_arithmetic [] = [Inl TypeError]"
  by code_simp

section \<open>What a call hands back\<close>

text \<open>
  Claim C2, as the code has it. When at least one row is in the window, the call has an
  outcome and every outcome is a result: the returned value is the pair of best
  publisher and yearly sales table, and the count of missing North American figures
  appears only in the second printed line, between the best publisher and the table.
\<close>

theorem analyze_returns_pair_and_prints_count:
  assumes "sales0615DF salesDF \<noteq> []"
  shows "analyze_publisher_sales ar salesDF \<noteq> [] \<and>
         (\<forall>outcome \<in> set (analyze_publisher_sales ar salesDF).
            \<exists>bp sales. outcome =
              Inr ((bp, sales),
                   [Print_best_publisher bp,
                    Print_missing_count (missing_count (best_rows salesDF bp)),
                    Print_sales_header, Show_table sales]))"
proof (intro conjI ballI)
  show "analyze_publisher_sales ar salesDF \<noteq> []"
    by (rule analyze_nonempty)
next
  fix outcome
  assume mem: "outcome \<in> set (analyze_publisher_sales ar salesDF)"
  show "\<exists>bp sales. outcome =
          Inr ((bp, sales),
               [Print_best_publisher bp,
                Print_missing_count (missing_count (best_rows salesDF bp)),
                Print_sales_header, Show_table sales])"
  proof (cases outcome)
    case (Inl e)
    with assms mem show ?thesis by (simp add: analyze_Inl_iff)
  next
    case (Inr res)
    with mem obtain bp where "res = expected_report ar salesDF bp"
      by (auto simp: analyze_Inr_iff)
    with Inr show ?thesis
      by (simp add: expected_report_def Let_def)
  qed
qed

theorem analyze_returns_pair_and_prints_count_witness:
  "sales0615DF scenario_abc \<noteq> [] \<and>
   Inr ((Some ''A'', sales_abc),
        [Print_best_publisher (Some ''A''), Print_missing_count 0,
         Print_sales_header, Show_table sales_abc])
     \<in> set (analyze_publisher_sales decimal_arithmetic scenario_abc) \<and>
   (\<exists>bp sales.
      Inr ((Some ''A'', sales_abc),
           [Print_best_publisher (Some ''A''), Print_missing_count 0,
            Print_sales_header, Show_table sales_abc]) =
      Inr ((bp, sales),
           [Print_best_publisher bp, Print_missing_count (missing_count (best_rows scenario_abc bp)),
            Print_sales_header, Show_table sales]))"
proof -
  have h1: "sales0615DF scenario_abc \<noteq> []"
    by code_simp
  have h2: "Inr ((Some ''A'', sales_abc),
        [Print_best_publisher (Some ''A''), Print_missing_count 0,
         Print_sales_header, Show_table sales_abc])
      \<in> set (analyze_publisher_sales decimal_arithmetic scenario_abc)"
    by (simp add: analyze_scenario_abc)
  from analyze_returns_pair_and_prints_count [OF h1, of decimal_arithmetic]
  have "\<forall>outcome \<in> set (analyze_publisher_sales decimal_arithmetic scenario_abc).
          \<exists>bp sales. outcome =
            Inr ((bp, sales),
                 [Print_best_publisher bp,
                  Print_missing_count (missing_count (best_rows scenario_abc bp)),
                  Print_sales_header, Show_table sales])"
    by (rule conjunct2)
  with h1 h2 show ?thesis
    by blast
qed

text \<open>
  Claim C2, as the specification words it, fails on a table whose only row has no release
  date: the call produces no result at all.
\<close>

theorem no_result_without_dated_row:
  "analyze_publisher_sales decimal_arithmetic scenario_no_date = [Inl TypeError]"
  by code_simp

section \<open>The best publisher\<close>

text \<open>
  Claim C3, as the code has it. On a table with at least one row in the window, the call
  has an outcome and every outcome is a result whose best publisher has a row in the
  window and a computed total that no publisher's computed total exceeds. The computed
  total of a publisher is the sum the engine forms from its known North American
  figures in the window; it is null when the publisher has none, and a null total lies
  below every number, as in the descending sort.
\<close>

theorem best_publisher_has_maximal_computed_total:
  assumes "\<exists>r \<in> set salesDF. in_window r"
  shows "analyze_publisher_sales ar salesDF \<noteq> [] \<and>
         (\<forall>outcome \<in> set (analyze_publisher_sales ar salesDF).
            \<exists>bp sales out. outcome = Inr ((bp, sales), out) \<and>
              (\<exists>r \<in> set salesDF. in_window r \<and> publisher r = bp) \<and>
              (\<forall>r \<in> set salesDF. in_window r \<longrightarrow>
                 total_na_sales ar salesDF (publisher r) \<le> total_na_sales ar salesDF bp))"
proof (intro conjI ballI)
  show "analyze_publisher_sales ar salesDF \<noteq> []"
    by (rule analyze_nonempty)
next
  fix outcome
  assume mem: "outcome \<in> set (analyze_publisher_sales ar salesDF)"
  show "\<exists>bp sales out. outcome = Inr ((bp, sales), out) \<and>
          (\<exists>r \<in> set salesDF. in_window r \<and> publisher r = bp) \<and>
          (\<forall>r \<in> set salesDF. in_window r \<longrightarrow>
             total_na_sales ar salesDF (publisher r) \<le> total_na_sales ar salesDF bp)"
  proof (cases outcome)
    case (Inl e)
    with assms mem show ?thesis
      by (auto simp: analyze_Inl_iff sales0615DF_Nil_iff)
  next
    case (Inr res)
    with mem obtain bp where "is_top_publisher ar salesDF bp" "res = expected_report ar salesDF bp"
      by (auto simp: analyze_Inr_iff)
    with Inr show ?thesis
      by (simp add: expected_report_def Let_def is_top_publisher_def)
  qed
qed

theorem best_publisher_has_maximal_computed_total_witness:
  "(\<exists>r \<in> set scenario_fractions. in_window r) \<and>
   Inr ((Some ''A'', sales_fractions),
        [Print_best_publisher (Some ''A''), Print_missing_count 0,
         Print_sales_header, Show_table sales_fractions])
     \<in> set (analyze_publisher_sales decimal_arithmetic scenario_fractions) \<and>
   total_na_sales decimal_arithmetic scenario_fractions (Some ''A'') = Some (4125 / 1000) \<and>
   total_na_sales decimal_arithmetic scenario_fractions (Some ''B'') = Some (5 / 10) \<and>
   total_na_sales decimal_arithmetic scenario_fractions (Some ''B'')
     \<le> total_na_sales decimal_arithmetic scenario_fractions (Some ''A'')"
proof -
  let ?b = "\<lparr>publisher = Some ''B'', release_date = Some (Date 2008 6 15),
             na_sales = Some (5 / 10 :: rat), total_sales = Some 1\<rparr>"
  have b: "?b \<in> set scenario_fractions" "in_window ?b"
    by (simp_all add: scenario_fractions_def in_window_def)
  then have h1: "\<exists>r \<in> set scenario_fractions. in_window r"
    by blast
  have h2: "Inr ((Some ''A'', sales_fractions),
        [Print_best_publisher (Some ''A''), Print_missing_count 0,
         Print_sales_header, Show_table sales_fractions])
      \<in> set (analyze_publisher_sales decimal_arithmetic scenario_fractions)"
    by (simp add: analyze_scenario_fractions)
  from best_publisher_has_maximal_computed_total [OF h1, of decimal_arithmetic]
  have "\<forall>outcome \<in> set (analyze_publisher_sales decimal_arithmetic scenario_fractions).
          \<exists>bp sales out. outcome = Inr ((bp, sales), out) \<and>
            (\<exists>r \<in> set scenario_fractions. in_window r \<and> publisher r = bp) \<and>
            (\<forall>r \<in> set scenario_fractions. in_window r \<longrightarrow>
               total_na_sales decimal_arithmetic scenario_fractions (publisher r)
                 \<le> total_na_sales decimal_arithmetic scenario_fractions bp)"
    by (rule conjunct2)
  with h2 have "\<forall>r \<in> set scenario_fractions. in_window r \<longrightarrow>
          total_na_sales decimal_arithmetic scenario_fractions (publisher r)
            \<le> total_na_sales decimal_arithmetic scenario_fractions (Some ''A'')"
    by fastforce
  with b have le: "total_na_sales decimal_arithmetic scenario_fractions (Some ''B'')
                     \<le> total_na_sales decimal_arithmetic scenario_fractions (Some ''A'')"
    by fastforce
  have "total_na_sales decimal_arithmetic scenario_fractions (Some ''A'') = Some (4125 / 1000)"
    and "total_na_sales decimal_arithmetic scenario_fractions (Some ''B'') = Some (5 / 10)"
    by code_simp+
  with h1 h2 le show ?thesis
    by simp
qed

text \<open>
  Claim C3, as the specification words it, fails when the sum is read with nulls counted
  as 0: publisher A has the single figure -1, publisher B only a null figure. B's sum
  is then 0 and exceeds A's, yet the only outcome reports A, because B's computed total
  is null and the descending sort puts nulls last.
\<close>

theorem negative_total_beats_all_null_publisher:
  "analyze_publisher_sales decimal_arithmetic scenario_negative =
     [Inr ((Some ''A'', sales_negative),
           [Print_best_publisher (Some ''A''), Print_missing_count 0,
            Print_sales_header, Show_table sales_negative])] \<and>
   sum_nulls_as_0 (map na_sales (filter (\<lambda>r. in_window r \<and> publisher r = Some ''A'') scenario_negative))
     = - 1 \<and>
   sum_nulls_as_0 (map na_sales (filter (\<lambda>r. in_window r \<and> publisher r = Some ''B'') scenario_negative))
     = 0 \<and>
   sum_nulls_as_0 (map na_sales (filter (\<lambda>r. in_window r \<and> publisher r = Some ''A'') scenario_negative))
     < sum_nulls_as_0 (map na_sales (filter (\<lambda>r. in_window r \<and> publisher r = Some ''B'') scenario_negative))"
proof -
  have "analyze_publisher_sales decimal_arithmetic scenario_negative =
     [Inr ((Some ''A'', sales_negative),
           [Print_best_publisher (Some ''A''), Print_missing_count 0,
            Print_sales_header, Show_table sales_negative])]"
    by code_simp
  moreover have
    "sum_nulls_as_0 (map na_sales (filter (\<lambda>r. in_window r \<and> publisher r = Some ''A'') scenario_negative))
       = - 1"
    "sum_nulls_as_0 (map na_sales (filter (\<lambda>r. in_window r \<and> publisher r = Some ''B'') scenario_negative))
       = 0"
    by (simp_all add: sum_nulls_as_0_def scenario_negative_def in_window_def)
  ultimately show ?thesis
    by simp
qed

section \<open>The analysis window\<close>




section \<open>The yearly sales table\<close>

text \<open>
  Claim C5. In every result, the yearly sales table has one row for each year in which
  the best publisher has a row in the window, the years ascending; the row of a year
  holds, for \<open>na_sales\<close> and for \<open>total_sales\<close>, the engine's sum of the figures present
  in that year's rows rounded by the engine to two decimals, and null when no figure
  is present (\<open>yearly_aggregate\<close>).
\<close>

theorem yearly_sales_grouped_by_year_ascending:
  assumes "Inr ((bp, sales), out) \<in> set (analyze_publisher_sales ar salesDF)"
  shows "\<exists>ks. sales = map (yearly_aggregate ar (best_rows salesDF bp)) ks \<and>
           sorted ks \<and> distinct ks \<and>
           set ks = {y. rows_of_year (best_rows salesDF bp) y \<noteq> []}"
proof -
  let ?ks = "years_of (best_rows salesDF bp)"
  have "sales = map (yearly_aggregate ar (best_rows salesDF bp)) ?ks"
    using assms by (rule analyze_Inr_expected)
  moreover have "sorted ?ks" "distinct ?ks"
    by (rule sorted_years_of, rule distinct_years_of)
  moreover have "set ?ks = {y. rows_of_year (best_rows salesDF bp) y \<noteq> []}"
    by (rule set_years_of)
  ultimately show ?thesis by blast
qed

theorem yearly_sales_grouped_by_year_ascending_witness:
  "Inr ((Some ''A'', sales_fractions),
        [Print_best_publisher (Some ''A''), Print_missing_count 0,
         Print_sales_header, Show_table sales_fractions])
     \<in> set (analyze_publisher_sales decimal_arithmetic scenario_fractions) \<and>
   (\<exists>ks. sales_fractions =
            map (yearly_aggregate decimal_arithmetic (best_rows scenario_fractions (Some ''A''))) ks \<and>
      sorted ks \<and> distinct ks \<and>
      set ks = {y. rows_of_year (best_rows scenario_fractions (Some ''A'')) y \<noteq> []}) \<and>
   map (yearly_aggregate decimal_arithmetic (best_rows scenario_fractions (Some ''A''))) [2007, 2009]
     = sales_fractions \<and>
   map (\<lambda>r. map_option date_year (release_date r)) (best_rows scenario_fractions (Some ''A''))
     = [Some 2009, Some 2007, Some 2009, Some 2007] \<and>
   map na_sales (rows_of_year (best_rows scenario_fractions (Some ''A'')) 2007)
     = [Some (125 / 1000), Some (25 / 100)]"
proof -
  have h: "Inr ((Some ''A'', sales_fractions),
        [Print_best_publisher (Some ''A''), Print_missing_count 0,
         Print_sales_header, Show_table sales_fractions])
      \<in> set (analyze_publisher_sales decimal_arithmetic scenario_fractions)"
    by (simp add: analyze_scenario_fractions)
  have "map (yearly_aggregate decimal_arithmetic (best_rows scenario_fractions (Some ''A''))) [2007, 2009]
          = sales_fractions"
    by code_simp
  moreover have
    "map (\<lambda>r. map_option date_year (release_date r)) (best_rows scenario_fractions (Some ''A''))
       = [Some 2009, Some 2007, Some 2009, Some 2007]"
    by (simp add: best_rows_def scenario_fractions_def in_window_def)
  moreover have "map na_sales (rows_of_year (best_rows scenario_fractions (Some ''A'')) 2007)
     = [Some (125 / 1000), Some (25 / 100)]"
    by (simp add: rows_of_year_def best_rows_def scenario_fractions_def in_window_def)
  ultimately show ?thesis
    using h yearly_sales_grouped_by_year_ascending [OF h] by simp
qed

section \<open>Missing North American figures\<close>

text \<open>
  Claim C6. In every result, the printed count is the number of the best publisher's
  rows in the window whose \<open>na_sales\<close> is null; and those rows add nothing to a sum:
  each yearly North American total, and each publisher's total in the ranking, is the
  same sum taken over the rows with a known \<open>na_sales\<close> only.
\<close>

theorem missing_count_and_null_rows_add_nothing:
  assumes "Inr ((bp, sales), out) \<in> set (analyze_publisher_sales ar salesDF)"
  shows "out = [Print_best_publisher bp,
                Print_missing_count (length (filter (\<lambda>r. na_sales r = None) (best_rows salesDF bp))),
                Print_sales_header, Show_table sales] \<and>
         (\<forall>row \<in> set sales. \<exists>y. year_key row = Some y \<and>
            na_total row =
              f_round ar (f_sum ar (map na_sales (filter (\<lambda>r. na_sales r \<noteq> None)
                                (rows_of_year (best_rows salesDF bp) y)))) 2) \<and>
         (\<forall>p. total_na_sales ar salesDF p =
            f_sum ar (map na_sales (filter (\<lambda>r. na_sales r \<noteq> None)
                     (filter (\<lambda>r. in_window r \<and> publisher r = p) salesDF))))"
proof -
  have "out = [Print_best_publisher bp, Print_missing_count (missing_count (best_rows salesDF bp)),
               Print_sales_header, Show_table sales]"
    using assms by (rule analyze_Inr_expected)
  moreover have "sales = map (yearly_aggregate ar (best_rows salesDF bp)) (years_of (best_rows salesDF bp))"
    using assms by (rule analyze_Inr_expected)
  ultimately have "out = [Print_best_publisher bp,
                Print_missing_count (length (filter (\<lambda>r. na_sales r = None) (best_rows salesDF bp))),
                Print_sales_header, Show_table sales]"
    and "\<forall>row \<in> set sales. \<exists>y. year_key row = Some y \<and>
            na_total row =
              f_round ar (f_sum ar (map na_sales (filter (\<lambda>r. na_sales r \<noteq> None)
                                (rows_of_year (best_rows salesDF bp) y)))) 2"
    unfolding f_sum_known_rows f_round_f_sum_spec
    by (auto simp: missing_count_def yearly_aggregate_def)
  moreover have "\<forall>p. total_na_sales ar salesDF p =
            f_sum ar (map na_sales (filter (\<lambda>r. na_sales r \<noteq> None)
                     (filter (\<lambda>r. in_window r \<and> publisher r = p) salesDF)))"
  proof
    fix p
    have "total_na_sales ar salesDF p =
          f_sum ar (map na_sales (filter (\<lambda>r. in_window r \<and> publisher r = p) salesDF))"
      by (simp add: total_na_sales_def f_sum_spec)
    then show "total_na_sales ar salesDF p =
            f_sum ar (map na_sales (filter (\<lambda>r. na_sales r \<noteq> None)
                     (filter (\<lambda>r. in_window r \<and> publisher r = p) salesDF)))"
      unfolding f_sum_known_rows .
  qed
  ultimately show ?thesis
    by (intro conjI)
qed

theorem missing_count_and_null_rows_add_nothing_witness:
  "Inr ((Some ''A'', sales_missing),
        [Print_best_publisher (Some ''A''), Print_missing_count 1,
         Print_sales_header, Show_table sales_missing])
     \<in> set (analyze_publisher_sales decimal_arithmetic scenario_missing) \<and>
   length (filter (\<lambda>r. na_sales r = None) (best_rows scenario_missing (Some ''A''))) = 1 \<and>
   total_na_sales decimal_arithmetic scenario_missing (Some ''A'') = Some 7"
proof -
  have h: "Inr ((Some ''A'', sales_missing),
        [Print_best_publisher (Some ''A''), Print_missing_count 1,
         Print_sales_header, Show_table sales_missing])
      \<in> set (analyze_publisher_sales decimal_arithmetic scenario_missing)"
    by (simp add: analyze_scenario_missing)
  have "total_na_sales decimal_arithmetic scenario_missing (Some ''A'') = Some 7"
    by code_simp
  with h missing_count_and_null_rows_add_nothing [OF h] show ?thesis
    by simp
qed

section \<open>A null best publisher\<close>

text \<open>
  Claim C9. When the best publisher of a result is null, the yearly sales table is empty
  and the printed count is 0: the comparison \<^verbatim>\<open>col("publisher") == None\<close> is null on
  every row, so no row is selected, not even the rows whose publisher is null.
\<close>

theorem null_best_publisher_gives_empty_result:
  assumes "Inr ((None, sales), out) \<in> set (analyze_publisher_sales ar salesDF)"
  shows "sales = [] \<and>
         out = [Print_best_publisher None, Print_missing_count 0,
                Print_sales_header, Show_table []]"
proof -
  have rows: "best_rows salesDF None = []"
    by (simp add: best_rows_def)
  have "sales = map (yearly_aggregate ar (best_rows salesDF None)) (years_of (best_rows salesDF None))"
    using assms by (rule analyze_Inr_expected)
  then have sales: "sales = []"
    by (simp add: rows years_of_def)
  have "out = [Print_best_publisher None, Print_missing_count (missing_count (best_rows salesDF None)),
               Print_sales_header, Show_table sales]"
    using assms by (rule analyze_Inr_expected)
  with sales show ?thesis
    by (simp add: rows missing_count_def)
qed

theorem null_best_publisher_gives_empty_result_witness:
  "Inr ((None, []),
        [Print_best_publisher None, Print_missing_count 0,
         Print_sales_header, Show_table []])
     \<in> set (analyze_publisher_sales decimal_arithmetic scenario_null_publisher) \<and>
   length (filter (\<lambda>r. publisher r = None \<and> na_sales r = None) scenario_null_publisher) = 1"
proof -
  have h: "Inr ((None, []),
        [Print_best_publisher None, Print_missing_count 0,
         Print_sales_header, Show_table []])
      \<in> set (analyze_publisher_sales decimal_arithmetic scenario_null_publisher)"
    by (simp add: analyze_scenario_null_publisher)
  have "length (filter (\<lambda>r. publisher r = None \<and> na_sales r = None) scenario_null_publisher) = 1"
    by (simp add: scenario_null_publisher_def)
  with h null_best_publisher_gives_empty_result [OF h] show ?thesis
    by simp
qed

section \<open>Years without any known figure\<close>

text \<open>
  Claim C10. In every result, each year in which the best publisher has a row in the
  window has its row in the yearly sales table; when every \<open>na_sales\<close> of that year's
  rows is null the row's \<open>na_total\<close> is null (not 0), and when every \<open>total_sales\<close> is
  null its \<open>global_total\<close> is null.
\<close>

theorem all_null_year_has_null_total:
  assumes "Inr ((bp, sales), out) \<in> set (analyze_publisher_sales ar salesDF)"
    and "rows_of_year (best_rows salesDF bp) y \<noteq> []"
  shows "\<exists>row \<in> set sales. year_key row = Some y \<and>
           ((\<forall>r \<in> set (rows_of_year (best_rows salesDF bp) y). na_sales r = None)
              \<longrightarrow> na_total row = None) \<and>
           ((\<forall>r \<in> set (rows_of_year (best_rows salesDF bp) y). total_sales r = None)
              \<longrightarrow> global_total row = None)"
proof -
  let ?S = "best_rows salesDF bp"
  let ?row = "yearly_aggregate ar ?S y"
  have "sales = map (yearly_aggregate ar ?S) (years_of ?S)"
    using assms(1) by (rule analyze_Inr_expected)
  moreover have "y \<in> set (years_of ?S)"
    using assms(2) by (simp add: set_years_of)
  ultimately have "?row \<in> set sales"
    by simp
  moreover have "year_key ?row = Some y"
    by (simp add: yearly_aggregate_def)
  moreover have "na_total ?row = None"
    if "\<forall>r \<in> set (rows_of_year ?S y). na_sales r = None"
  proof -
    have "rounded_sum ar (map na_sales (rows_of_year ?S y)) = None"
      using that by (intro rounded_sum_all_null) auto
    then show ?thesis
      by (simp add: yearly_aggregate_def)
  qed
  moreover have "global_total ?row = None"
    if "\<forall>r \<in> set (rows_of_year ?S y). total_sales r = None"
  proof -
    have "rounded_sum ar (map total_sales (rows_of_year ?S y)) = None"
      using that by (intro rounded_sum_all_null) auto
    then show ?thesis
      by (simp add: yearly_aggregate_def)
  qed
  ultimately show ?thesis
    by blast
qed

theorem all_null_year_has_null_total_witness:
  "Inr ((Some ''A'', sales_missing),
        [Print_best_publisher (Some ''A''), Print_missing_count 1,
         Print_sales_header, Show_table sales_missing])
     \<in> set (analyze_publisher_sales decimal_arithmetic scenario_missing) \<and>
   rows_of_year (best_rows scenario_missing (Some ''A'')) 2010 =
     [\<lparr>publisher = Some ''A'', release_date = Some (Date 2010 5 5),
       na_sales = None, total_sales = Some 15\<rparr>] \<and>
   (\<exists>row \<in> set sales_missing. year_key row = Some 2010 \<and> na_total row = None)"
proof -
  have h1: "Inr ((Some ''A'', sales_missing),
        [Print_best_publisher (Some ''A''), Print_missing_count 1,
         Print_sales_header, Show_table sales_missing])
      \<in> set (analyze_publisher_sales decimal_arithmetic scenario_missing)"
    by (simp add: analyze_scenario_missing)
  have rows: "rows_of_year (best_rows scenario_missing (Some ''A'')) 2010 =
     [\<lparr>publisher = Some ''A'', release_date = Some (Date 2010 5 5),
       na_sales = None, total_sales = Some 15\<rparr>]"
    by (simp add: rows_of_year_def best_rows_def scenario_missing_def in_window_def)
  then have h2: "rows_of_year (best_rows scenario_missing (Some ''A'')) 2010 \<noteq> []"
    by simp
  from all_null_year_has_null_total [OF h1 h2]
  have "\<exists>row \<in> set sales_missing. year_key row = Some 2010 \<and> na_total row = None"
    unfolding rows by simp
  with h1 rows show ?thesis
    by simp
qed

section \<open>Determinism\<close>




section \<open>The yearly totals against the publisher's total\<close>

lemma single_year_rows:
  assumes "years_of rows = [y]" and "\<And>r. r \<in> set rows \<Longrightarrow> in_window r"
  shows "rows_of_year rows y = rows"
proof -
  have "map_option date_year (release_date r) = Some y" if "r \<in> set rows" for r
  proof -
    from that assms(2) obtain k where k: "f_year (release_date r) = Some k"
      using in_window_year by blast
    with that have "rows_of_year rows k \<noteq> []"
      by (auto simp: rows_of_year_def f_year_def filter_empty_conv)
    then have "k \<in> set (years_of rows)"
      by (simp add: set_years_of)
    with assms(1) have "k = y"
      by simp
    with k show ?thesis
      by (simp add: f_year_def)
  qed
  then show ?thesis
    unfolding rows_of_year_def by (simp add: filter_True)
qed

text \<open>
  Claim C8, as the code has it. Each year's North American total is the engine's sum of
  that year alone, rounded on its own. When the yearly sales table has a single year,
  its \<open>na_total\<close> is the rounded sum of all the best publisher's known \<open>na_sales\<close> in the
  window; with several years the yearly totals need not add up to that rounded sum.
\<close>

theorem single_year_total_is_rounded_sum:
  assumes "Inr ((bp, sales), out) \<in> set (analyze_publisher_sales ar salesDF)"
    and "sales = [row]"
  shows "na_total row = rounded_sum ar (map na_sales (best_rows salesDF bp))"
proof -
  let ?S = "best_rows salesDF bp"
  have sales: "sales = map (yearly_aggregate ar ?S) (years_of ?S)"
    using assms(1) by (rule analyze_Inr_expected)
  with assms(2) obtain y where y: "years_of ?S = [y]" and row: "row = yearly_aggregate ar ?S y"
    by (cases "years_of ?S") auto
  have "rows_of_year ?S y = ?S"
    using y by (rule single_year_rows) (rule best_rows_in_window)
  with row show ?thesis
    by (simp add: yearly_aggregate_def)
qed

theorem single_year_total_is_rounded_sum_witness:
  "Inr ((Some ''A'', sales_single_year),
        [Print_best_publisher (Some ''A''), Print_missing_count 0,
         Print_sales_header, Show_table sales_single_year])
     \<in> set (analyze_publisher_sales decimal_arithmetic scenario_single_year) \<and>
   sales_single_year = [\<lparr>year_key = Some 2010, na_total = Some (38 / 100), global_total = Some 3\<rparr>] \<and>
   rounded_sum decimal_arithmetic (map na_sales (best_rows scenario_single_year (Some ''A'')))
     = Some (38 / 100)"
proof -
  have h1: "Inr ((Some ''A'', sales_single_year),
        [Print_best_publisher (Some ''A''), Print_missing_count 0,
         Print_sales_header, Show_table sales_single_year])
      \<in> set (analyze_publisher_sales decimal_arithmetic scenario_single_year)"
    by (simp add: analyze_scenario_single_year)
  have h2: "sales_single_year =
      [\<lparr>year_key = Some 2010, na_total = Some (38 / 100), global_total = Some 3\<rparr>]"
    by (simp add: sales_single_year_def)
  from single_year_total_is_rounded_sum [OF h1 h2]
  have "rounded_sum decimal_arithmetic (map na_sales (best_rows scenario_single_year (Some ''A'')))
          = Some (38 / 100)"
    by simp
  with h1 h2 show ?thesis
    by (intro conjI)
qed

text \<open>
  Claim C8, as the specification words it, fails when the yearly sums round away: with
  0.004 in each of two years both yearly totals are 0.00, while the publisher's sum
  0.008 rounds to 0.01.
\<close>

theorem yearly_totals_sum_differs_from_rounded_total:
  "Inr ((Some ''A'', sales_rounding),
        [Print_best_publisher (Some ''A''), Print_missing_count 0,
         Print_sales_header, Show_table sales_rounding])
     \<in> set (analyze_publisher_sales decimal_arithmetic scenario_rounding) \<and>
   map na_total sales_rounding = [Some 0, Some 0] \<and>
   sum_nulls_as_0 (map na_total sales_rounding) = 0 \<and>
   rounded_sum decimal_arithmetic (map na_sales (best_rows scenario_rounding (Some ''A'')))
     = Some (1 / 100) \<and>
   Some (sum_nulls_as_0 (map na_total sales_rounding)) \<noteq>
     rounded_sum decimal_arithmetic (map na_sales (best_rows scenario_rounding (Some ''A'')))"
proof -
  have mem: "Inr ((Some ''A'', sales_rounding),
        [Print_best_publisher (Some ''A''), Print_missing_count 0,
         Print_sales_header, Show_table sales_rounding])
      \<in> set (analyze_publisher_sales decimal_arithmetic scenario_rounding)"
    by (simp add: analyze_scenario_rounding)
  have totals: "map na_total sales_rounding = [Some 0, Some 0]"
    by (simp add: sales_rounding_def)
  have zero: "sum_nulls_as_0 (map na_total sales_rounding) = 0"
    by (simp add: totals sum_nulls_as_0_def)
  have rounded: "rounded_sum decimal_arithmetic
          (map na_sales (best_rows scenario_rounding (Some ''A''))) = Some (1 / 100)"
    by code_simp
  have "Some (sum_nulls_as_0 (map na_total sales_rounding)) \<noteq>
     rounded_sum decimal_arithmetic (map na_sales (best_rows scenario_rounding (Some ''A'')))"
    unfolding zero rounded by simp
  with mem totals zero rounded show ?thesis
    by (intro conjI)
qed

end
